theory Spec2Isabelle
  imports Main "HOL-Library.Word"
begin

section \<open>The nomade\_native plugin shim (Linux and Windows)\<close>

text \<open>
  The Linux plugin (\<^verbatim>\<open>linux/nomade_native_plugin.cc\<close>) registers one method channel
  and answers the single method \<^verbatim>\<open>getPlatformVersion\<close>. Everything the C code does
  beyond computing values is made explicit here: the operating system and the host
  runtime are a \<open>world\<close> that every effectful function takes and returns, with a
  trace of the system calls and replies made so far.
\<close>

subsection \<open>C strings\<close>

text \<open>
  A \<^verbatim>\<open>const gchar*\<close> or a \<^verbatim>\<open>char[N]\<close> field is a list of bytes. Reading it as a
  string stops at the first NUL byte; the end of the list counts as a terminator.
\<close>

definition c_str :: "char list \<Rightarrow> string" where
  "c_str buf = takeWhile (\<lambda>c. c \<noteq> CHR 0x00) buf"

text \<open>
  \<^verbatim>\<open>strcmp\<close>: bytes are compared as unsigned values up to and including the first
  terminator; the result is zero, or the difference at the first position that differs.
\<close>

fun strcmp :: "char list \<Rightarrow> char list \<Rightarrow> int" where
  "strcmp (a # as) (b # bs) =
     (if a \<noteq> b then of_char a - of_char b
      else if a = CHR 0x00 then 0
      else strcmp as bs)"
| "strcmp [] (b # bs) = - of_char b"
| "strcmp (a # as) [] = of_char a"
| "strcmp [] [] = 0"

text \<open>
  \<^verbatim>\<open>g_strdup_printf\<close> with a format that holds one \<^verbatim>\<open>%s\<close> directive and one string
  argument, which is all the plugin uses: the text before the directive is copied, the
  argument is read as a C string, the rest of the format follows.
\<close>

fun g_strdup_printf :: "string \<Rightarrow> char list \<Rightarrow> string" where
  "g_strdup_printf (c # d # fmt) arg =
     (if c = CHR ''%'' \<and> d = CHR ''s'' then c_str arg @ fmt
      else c # g_strdup_printf (d # fmt) arg)"
| "g_strdup_printf fmt arg = fmt"

subsection \<open>Values, calls and responses of the host runtime\<close>

text \<open>
  \<^verbatim>\<open>FlValue\<close>: the kinds that matter here. The argument payload of a call is such a
  value; the dispatcher never inspects it.
\<close>

datatype FlValue =
    FlNull
  | FlBool bool
  | FlInt "64 word"
  | FlString string
  | FlList "FlValue list"

datatype FlMethodResponse =
    FlMethodSuccessResponse FlValue
  | FlMethodErrorResponse string string FlValue
  | FlMethodNotImplementedResponse

record FlMethodCall =
  mc_name :: "char list"
  mc_args :: FlValue

definition fl_method_call_get_name :: "FlMethodCall \<Rightarrow> char list" where
  "fl_method_call_get_name method_call = mc_name method_call"

definition fl_value_new_string :: "char list \<Rightarrow> FlValue" where
  "fl_value_new_string s = FlString (c_str s)"

definition fl_method_success_response_new :: "FlValue \<Rightarrow> FlMethodResponse" where
  "fl_method_success_response_new result = FlMethodSuccessResponse result"

definition fl_method_not_implemented_response_new :: FlMethodResponse where
  "fl_method_not_implemented_response_new = FlMethodNotImplementedResponse"

subsection \<open>The operating system\<close>

text \<open>
  \<^verbatim>\<open>struct utsname\<close>: each field is a \<^verbatim>\<open>char[65]\<close> array. \<^verbatim>\<open>struct utsname x = {}\<close>
  fills every field with zero bytes.
\<close>

record utsname =
  sysname :: "char list"
  nodename :: "char list"
  release :: "char list"
  version :: "char list"
  machine :: "char list"

definition utsname_zero :: utsname where
  "utsname_zero =
     \<lparr>sysname = replicate 65 (CHR 0x00), nodename = replicate 65 (CHR 0x00),
      release = replicate 65 (CHR 0x00), version = replicate 65 (CHR 0x00),
      machine = replicate 65 (CHR 0x00)\<rparr>"

text \<open>
  The state of the operating system, as far as \<^verbatim>\<open>uname\<close> shows it: whether the call
  fails, and the identification the kernel holds.
\<close>

record os_state =
  uname_fails :: bool
  kernel_uts :: utsname

datatype event =
    Uname
  | Respond FlMethodCall FlMethodResponse

record world =
  os :: os_state
  trace :: "event list"

text \<open>
  \<^verbatim>\<open>uname(buf)\<close>: on success returns 0 and stores the kernel's identification in the
  buffer; on failure returns -1 and stores nothing. The call itself is recorded.
\<close>

definition uname :: "utsname \<Rightarrow> world \<Rightarrow> (int \<times> utsname) \<times> world" where
  "uname buf w =
     ((if uname_fails (os w) then (- 1, buf) else (0, kernel_uts (os w))),
      w\<lparr>trace := trace w @ [Uname]\<rparr>)"

text \<open>
  \<^verbatim>\<open>fl_method_call_respond\<close>: hands the response for this call to the host's reply
  mechanism. The plugin passes no error slot and drops the returned flag.
\<close>

definition fl_method_call_respond ::
  "FlMethodCall \<Rightarrow> FlMethodResponse \<Rightarrow> world \<Rightarrow> bool \<times> world" where
  "fl_method_call_respond method_call response w =
     (True, w\<lparr>trace := trace w @ [Respond method_call response]\<rparr>)"

subsection \<open>The plugin\<close>

datatype GObject = GObject

datatype NomadeNativePlugin = NomadeNativePlugin (parent_instance: GObject)

definition get_platform_version :: "world \<Rightarrow> FlMethodResponse \<times> world" where
  "get_platform_version w =
     (let uname_data = utsname_zero;
          ((ret, uname_data), w) = uname uname_data w;
          version_str = g_strdup_printf ''Linux %s'' (version uname_data);
          result = fl_value_new_string version_str
      in (fl_method_success_response_new result, w))"

definition nomade_native_plugin_handle_method_call ::
  "NomadeNativePlugin \<Rightarrow> FlMethodCall \<Rightarrow> world \<Rightarrow> world" where
  "nomade_native_plugin_handle_method_call self method_call w =
     (let method = fl_method_call_get_name method_call;
          (response, w) =
            (if strcmp method ''getPlatformVersion'' = 0 then get_platform_version w
             else (fl_method_not_implemented_response_new, w))
      in snd (fl_method_call_respond method_call response w))"

text \<open>The replies handed to the host so far, oldest first.\<close>

fun reply_of :: "event \<Rightarrow> (FlMethodCall \<times> FlMethodResponse) list" where
  "reply_of Uname = []"
| "reply_of (Respond c r) = [(c, r)]"

definition replies :: "world \<Rightarrow> (FlMethodCall \<times> FlMethodResponse) list" where
  "replies w = concat (map reply_of (trace w))"

subsection \<open>Registration with the host\<close>

text \<open>
  The binary messenger of the host keeps the channel objects and, for each channel name,
  which object receives the messages sent on that name. A channel object is referred to
  by its position, so that the reference the plugin holds and the one the messenger
  holds denote the same object. Reference counts (\<^verbatim>\<open>g_object_ref\<close>, \<^verbatim>\<open>g_object_unref\<close>,
  \<^verbatim>\<open>g_autoptr\<close>) only manage memory and are left out.
\<close>

datatype FlMethodCodec = FlStandardMethodCodec | FlJsonMethodCodec

type_synonym FlMethodChannelMethodCallHandler =
  "nat \<Rightarrow> FlMethodCall \<Rightarrow> NomadeNativePlugin \<Rightarrow> world \<Rightarrow> world"

record FlMethodChannel =
  channel_name :: string
  channel_codec :: FlMethodCodec
  method_call_handler :: "(FlMethodChannelMethodCallHandler \<times> NomadeNativePlugin) option"

record FlBinaryMessenger =
  channels :: "FlMethodChannel list"
  message_handlers :: "string \<rightharpoonup> nat"

record FlPluginRegistrar =
  messenger :: FlBinaryMessenger

definition fl_plugin_registrar_get_messenger :: "FlPluginRegistrar \<Rightarrow> FlBinaryMessenger" where
  "fl_plugin_registrar_get_messenger registrar = messenger registrar"

definition fl_standard_method_codec_new :: FlMethodCodec where
  "fl_standard_method_codec_new = FlStandardMethodCodec"

text \<open>
  \<^verbatim>\<open>fl_method_channel_new\<close>: a new channel object without a method call handler, which
  from now on receives the messages of its name.
\<close>

definition fl_method_channel_new ::
  "FlBinaryMessenger \<Rightarrow> char list \<Rightarrow> FlMethodCodec \<Rightarrow> nat \<times> FlBinaryMessenger" where
  "fl_method_channel_new m name codec =
     (let channel = length (channels m)
      in (channel,
          m\<lparr>channels := channels m @
               [\<lparr>channel_name = c_str name, channel_codec = codec,
                 method_call_handler = None\<rparr>],
            message_handlers := (message_handlers m)(c_str name \<mapsto> channel)\<rparr>))"

text \<open>
  \<^verbatim>\<open>fl_method_channel_set_method_call_handler\<close>: stores the callback and its user data
  in the channel object; a reference that is no channel object changes nothing.
\<close>

definition fl_method_channel_set_method_call_handler ::
  "nat \<Rightarrow> FlMethodChannelMethodCallHandler \<Rightarrow> NomadeNativePlugin \<Rightarrow>
   FlBinaryMessenger \<Rightarrow> FlBinaryMessenger" where
  "fl_method_channel_set_method_call_handler channel handler user_data m =
     (if channel < length (channels m)
      then m\<lparr>channels := (channels m)
             [channel := (channels m ! channel)
                \<lparr>method_call_handler := Some (handler, user_data)\<rparr>]\<rparr>
      else m)"

definition g_object_new :: NomadeNativePlugin where
  "g_object_new = NomadeNativePlugin GObject"

definition method_call_cb :: FlMethodChannelMethodCallHandler where
  "method_call_cb channel method_call user_data w =
     (let plugin = user_data
      in nomade_native_plugin_handle_method_call plugin method_call w)"

definition nomade_native_plugin_register_with_registrar ::
  "FlPluginRegistrar \<Rightarrow> FlPluginRegistrar" where
  "nomade_native_plugin_register_with_registrar registrar =
     (let plugin = g_object_new;
          codec = fl_standard_method_codec_new;
          (channel, m) =
            fl_method_channel_new (fl_plugin_registrar_get_messenger registrar)
              ''nomade_native'' codec;
          m = fl_method_channel_set_method_call_handler channel method_call_cb plugin m
      in registrar\<lparr>messenger := m\<rparr>)"

text \<open>The channel objects that hold a method call handler.\<close>

definition installed_handlers :: "FlBinaryMessenger \<Rightarrow> FlMethodChannel list" where
  "installed_handlers m = filter (\<lambda>ch. method_call_handler ch \<noteq> None) (channels m)"

text \<open>
  The Windows C entry point (\<^verbatim>\<open>windows/nomade_native_plugin_c_api.cpp\<close>) looks the
  registrar up and forwards to \<^verbatim>\<open>NomadeNativePlugin::RegisterWithRegistrar\<close>. The header
  declares that function; both it and the registrar manager are parameters here.
\<close>

definition NomadeNativePluginCApiRegisterWithRegistrar ::
  "('ref \<Rightarrow> 'registrar) \<Rightarrow> ('registrar \<Rightarrow> 'host \<Rightarrow> 'host) \<Rightarrow> 'ref \<Rightarrow> 'host \<Rightarrow> 'host" where
  "NomadeNativePluginCApiRegisterWithRegistrar GetRegistrar RegisterWithRegistrar registrar h =
     RegisterWithRegistrar (GetRegistrar registrar) h"

subsection \<open>Two example hosts\<close>

text \<open>
  A Linux host that runs the kernel release \<^verbatim>\<open>5.15.0-76-generic\<close>: its \<^verbatim>\<open>release\<close>
  field reads so, and its \<^verbatim>\<open>version\<close> field holds the build string of that kernel
  (each field padded with zero bytes to 65). And the same host when \<^verbatim>\<open>uname\<close> fails.
\<close>

definition host_5_15 :: world where
  "host_5_15 =
     \<lparr>os = \<lparr>uname_fails = False,
             kernel_uts = \<lparr>sysname = ''Linux'' @ replicate 60 (CHR 0x00),
               nodename = ''host'' @ replicate 61 (CHR 0x00),
               release = ''5.15.0-76-generic'' @ replicate 48 (CHR 0x00),
               version = ''#83-Ubuntu SMP Thu Jun 15 19:16:32 UTC 2023'' @
                 replicate 22 (CHR 0x00),
               machine = ''x86_64'' @ replicate 59 (CHR 0x00)\<rparr>\<rparr>,
      trace = []\<rparr>"

definition host_uname_fails :: world where
  "host_uname_fails =
     \<lparr>os = \<lparr>uname_fails = True, kernel_uts = kernel_uts (os host_5_15)\<rparr>, trace = []\<rparr>"

section \<open>Properties\<close>

subsection \<open>C strings\<close>

lemma c_str_Nil [simp]: "c_str [] = []"
  by (simp add: c_str_def)

lemma c_str_Cons:
  "c_str (c # cs) = (if c = CHR 0x00 then [] else c # c_str cs)"
  by (simp add: c_str_def)

lemma of_char_zero_iff: "(of_char c :: int) = 0 \<longleftrightarrow> c = CHR 0x00"
proof -
  have "(of_char c :: int) = of_char (CHR 0x00) \<longleftrightarrow> c = CHR 0x00"
    by (rule of_char_eq_iff)
  then show ?thesis by simp
qed

lemma strcmp_zero_iff: "strcmp a b = 0 \<longleftrightarrow> c_str a = c_str b"
proof (induction a b rule: strcmp.induct)
  case (1 a as b bs)
  then show ?case by (auto simp: c_str_Cons of_char_zero_iff)
next
  case (2 b bs)
  show ?case by (auto simp: c_str_Cons of_char_zero_iff)
next
  case (3 a as)
  show ?case by (auto simp: c_str_Cons of_char_zero_iff)
next
  case 4
  show ?case by simp
qed

lemma c_str_c_str: "c_str (c_str b) = c_str b"
  by (simp add: c_str_def)

text \<open>A list without a NUL byte is read whole.\<close>

lemma c_str_id: "CHR 0x00 \<notin> set s \<Longrightarrow> c_str s = s"
  by (induction s) (auto simp: c_str_Cons)

lemma c_str_replicate_zero: "c_str (replicate n (CHR 0x00)) = []"
  by (cases n) (simp_all add: c_str_Cons)

lemma c_str_literal: "c_str ''getPlatformVersion'' = ''getPlatformVersion''"
  by (simp add: c_str_Cons)

lemma version_utsname_zero: "c_str (version utsname_zero) = []"
  by (simp add: utsname_zero_def c_str_replicate_zero)

subsection \<open>The platform version query\<close>

lemma g_strdup_printf_Linux: "g_strdup_printf ''Linux %s'' arg = ''Linux '' @ c_str arg"
  by simp

lemma fl_value_new_string_Linux:
  "fl_value_new_string (''Linux '' @ c_str arg) = FlString (''Linux '' @ c_str arg)"
  by (simp add: fl_value_new_string_def c_str_Cons c_str_c_str)

lemma uname_result:
  "uname buf w =
     ((if uname_fails (os w) then - 1 else 0,
       if uname_fails (os w) then buf else kernel_uts (os w)),
      w\<lparr>trace := trace w @ [Uname]\<rparr>)"
  by (simp add: uname_def)

text \<open>
  One run of the query: one \<^verbatim>\<open>uname\<close> call, and a success response that holds
  \<^verbatim>\<open>Linux\<close>, a space and the \<^verbatim>\<open>version\<close> field of the structure as the call left it.
\<close>

lemma get_platform_version_eq:
  "get_platform_version w =
     (FlMethodSuccessResponse
        (FlString (''Linux '' @
           c_str (version (if uname_fails (os w) then utsname_zero else kernel_uts (os w))))),
      w\<lparr>trace := trace w @ [Uname]\<rparr>)"
  unfolding get_platform_version_def Let_def uname_result prod.case
    g_strdup_printf_Linux fl_value_new_string_Linux fl_method_success_response_new_def
  by simp

text \<open>Only the \<^verbatim>\<open>version\<close> field is read: the \<^verbatim>\<open>release\<close> field has no influence.\<close>

lemma get_platform_version_ignores_release:
  "fst (get_platform_version
          (w\<lparr>os := (os w)\<lparr>kernel_uts := (kernel_uts (os w))\<lparr>release := r\<rparr>\<rparr>\<rparr>)) =
   fst (get_platform_version w)"
  by (simp add: get_platform_version_eq)

subsection \<open>The dispatcher\<close>

lemma handle_method_call_eq:
  "nomade_native_plugin_handle_method_call self mc w =
     (if c_str (mc_name mc) = ''getPlatformVersion''
      then w\<lparr>trace := trace w @
             [Uname,
              Respond mc (FlMethodSuccessResponse
                (FlString (''Linux '' @
                   c_str (version (if uname_fails (os w) then utsname_zero
                                   else kernel_uts (os w))))))]\<rparr>
      else w\<lparr>trace := trace w @ [Respond mc FlMethodNotImplementedResponse]\<rparr>)"
  unfolding nomade_native_plugin_handle_method_call_def Let_def fl_method_call_get_name_def
    strcmp_zero_iff c_str_literal get_platform_version_eq
    fl_method_not_implemented_response_new_def fl_method_call_respond_def
  by simp

lemma replies_append:
  "replies (w\<lparr>trace := trace w @ es\<rparr>) = replies w @ concat (map reply_of es)"
  by (simp add: replies_def)

lemma method_call_cb_eq:
  "method_call_cb channel method_call plugin w =
     nomade_native_plugin_handle_method_call plugin method_call w"
  by (simp add: method_call_cb_def)

text \<open>
  Claim C1. Whatever the method name and the arguments, and whatever has happened
  before, handling one method call hands exactly one response to the host's reply
  mechanism, and that response answers this call: the replies afterwards are the
  replies before followed by a single new one.
\<close>

theorem handle_method_call_responds_exactly_once:
  "\<exists>response.
     replies (nomade_native_plugin_handle_method_call self method_call w) =
       replies w @ [(method_call, response)]"
  by (simp add: handle_method_call_eq replies_append)

text \<open>
  Claim C2. When the method name, read as a C string, is anything but
  \<^verbatim>\<open>getPlatformVersion\<close>, the only thing the dispatcher does is to reply
  not-implemented: the trace gains that single reply and nothing else, so \<^verbatim>\<open>uname\<close>
  is not called (every run of the platform version query calls it), and the operating
  system is left as it was. The comparison is byte by byte, hence case sensitive; for a
  name without a NUL byte the C string is the name itself (\<open>c_str_id\<close>).
\<close>

theorem unknown_method_not_implemented:
  "c_str (mc_name method_call) \<noteq> ''getPlatformVersion'' \<Longrightarrow>
   nomade_native_plugin_handle_method_call self method_call w =
     w\<lparr>trace := trace w @ [Respond method_call FlMethodNotImplementedResponse]\<rparr>"
  by (simp add: handle_method_call_eq)

theorem unknown_method_not_implemented_witness:
  "c_str (mc_name \<lparr>mc_name = ''getBatteryLevel'', mc_args = FlNull\<rparr>) \<noteq> ''getPlatformVersion'' \<and>
   c_str (mc_name \<lparr>mc_name = ''getplatformversion'', mc_args = FlNull\<rparr>) \<noteq> ''getPlatformVersion'' \<and>
   nomade_native_plugin_handle_method_call (NomadeNativePlugin GObject)
     \<lparr>mc_name = ''getBatteryLevel'', mc_args = FlNull\<rparr>
     \<lparr>os = \<lparr>uname_fails = False, kernel_uts = utsname_zero\<rparr>, trace = []\<rparr> =
   \<lparr>os = \<lparr>uname_fails = False, kernel_uts = utsname_zero\<rparr>,
    trace = [Respond \<lparr>mc_name = ''getBatteryLevel'', mc_args = FlNull\<rparr>
               FlMethodNotImplementedResponse]\<rparr> \<and>
   nomade_native_plugin_handle_method_call (NomadeNativePlugin GObject)
     \<lparr>mc_name = ''getplatformversion'', mc_args = FlNull\<rparr>
     \<lparr>os = \<lparr>uname_fails = False, kernel_uts = utsname_zero\<rparr>, trace = []\<rparr> =
   \<lparr>os = \<lparr>uname_fails = False, kernel_uts = utsname_zero\<rparr>,
    trace = [Respond \<lparr>mc_name = ''getplatformversion'', mc_args = FlNull\<rparr>
               FlMethodNotImplementedResponse]\<rparr>"
  using unknown_method_not_implemented
      [of "\<lparr>mc_name = ''getBatteryLevel'', mc_args = FlNull\<rparr>"
        "NomadeNativePlugin GObject"
        "\<lparr>os = \<lparr>uname_fails = False, kernel_uts = utsname_zero\<rparr>, trace = []\<rparr>"]
    unknown_method_not_implemented
      [of "\<lparr>mc_name = ''getplatformversion'', mc_args = FlNull\<rparr>"
        "NomadeNativePlugin GObject"
        "\<lparr>os = \<lparr>uname_fails = False, kernel_uts = utsname_zero\<rparr>, trace = []\<rparr>"]
  by (simp add: c_str_Cons)

text \<open>
  Claim C3. When the method name is exactly \<^verbatim>\<open>getPlatformVersion\<close>, the one reply is a
  success response whose payload is a string value, not the null value.
\<close>

theorem getPlatformVersion_success_string:
  "c_str (mc_name method_call) = ''getPlatformVersion'' \<Longrightarrow>
   \<exists>s. replies (nomade_native_plugin_handle_method_call self method_call w) =
          replies w @ [(method_call, FlMethodSuccessResponse (FlString s))] \<and>
       FlString s \<noteq> FlNull"
  by (simp add: handle_method_call_eq replies_append)

theorem getPlatformVersion_success_string_witness:
  "c_str (mc_name \<lparr>mc_name = ''getPlatformVersion'', mc_args = FlNull\<rparr>) = ''getPlatformVersion'' \<and>
   (\<exists>s. replies (nomade_native_plugin_handle_method_call (NomadeNativePlugin GObject)
            \<lparr>mc_name = ''getPlatformVersion'', mc_args = FlNull\<rparr>
            \<lparr>os = \<lparr>uname_fails = False, kernel_uts = utsname_zero\<rparr>, trace = []\<rparr>) =
          replies \<lparr>os = \<lparr>uname_fails = False, kernel_uts = utsname_zero\<rparr>, trace = []\<rparr> @
          [(\<lparr>mc_name = ''getPlatformVersion'', mc_args = FlNull\<rparr>,
            FlMethodSuccessResponse (FlString s))] \<and>
        FlString s \<noteq> FlNull)"
  using getPlatformVersion_success_string
      [of "\<lparr>mc_name = ''getPlatformVersion'', mc_args = FlNull\<rparr>"
        "NomadeNativePlugin GObject"
        "\<lparr>os = \<lparr>uname_fails = False, kernel_uts = utsname_zero\<rparr>, trace = []\<rparr>"]
  by (simp add: c_str_Cons)

text \<open>
  Claim C4. In every state of the operating system, the string that
  \<^verbatim>\<open>get_platform_version\<close> returns is \<^verbatim>\<open>Linux\<close> and a space followed by the \<^verbatim>\<open>version\<close>
  field of the \<^verbatim>\<open>utsname\<close> structure: the one the kernel stored, or the zero-filled one
  when the call stored nothing.
\<close>

theorem get_platform_version_Linux_version:
  "fst (get_platform_version w) =
     FlMethodSuccessResponse
       (FlString (''Linux '' @
          c_str (version (if uname_fails (os w) then utsname_zero else kernel_uts (os w)))))"
  by (simp add: get_platform_version_eq)

text \<open>
  Claim C5, as amended. Scenario: on a Linux host where \<^verbatim>\<open>uname\<close> succeeds, the call
  \<^verbatim>\<open>getPlatformVersion\<close> without arguments is answered once, with the success value
  made of \<^verbatim>\<open>Linux\<close>, a space, and what the \<^verbatim>\<open>version\<close> field of the host's \<^verbatim>\<open>utsname\<close>
  structure reads: the build string of the kernel, whatever its \<^verbatim>\<open>release\<close> field says.
  On the host that runs the release \<^verbatim>\<open>5.15.0-76-generic\<close> the value is
  \<^verbatim>\<open>Linux #83-Ubuntu SMP Thu Jun 15 19:16:32 UTC 2023\<close>.
\<close>

theorem scenario_Linux_version_field:
  "\<not> uname_fails (os w) \<Longrightarrow>
   c_str (version (kernel_uts (os w))) = v \<Longrightarrow>
   method_call = \<lparr>mc_name = ''getPlatformVersion'', mc_args = FlNull\<rparr> \<Longrightarrow>
   replies (nomade_native_plugin_handle_method_call self method_call w) =
     replies w @
       [(method_call, FlMethodSuccessResponse (FlString (''Linux'' @ '' '' @ v)))]"
  by (simp add: handle_method_call_eq replies_append c_str_Cons)

theorem scenario_Linux_version_field_witness:
  "\<not> uname_fails (os host_5_15) \<and>
   c_str (release (kernel_uts (os host_5_15))) = ''5.15.0-76-generic'' \<and>
   c_str (version (kernel_uts (os host_5_15))) =
     ''#83-Ubuntu SMP Thu Jun 15 19:16:32 UTC 2023'' \<and>
   replies (nomade_native_plugin_handle_method_call (NomadeNativePlugin GObject)
       \<lparr>mc_name = ''getPlatformVersion'', mc_args = FlNull\<rparr> host_5_15) =
     [(\<lparr>mc_name = ''getPlatformVersion'', mc_args = FlNull\<rparr>,
       FlMethodSuccessResponse
         (FlString ''Linux #83-Ubuntu SMP Thu Jun 15 19:16:32 UTC 2023''))]"
proof -
  have ok: "\<not> uname_fails (os host_5_15)"
    by (simp add: host_5_15_def)
  have rel: "c_str (release (kernel_uts (os host_5_15))) = ''5.15.0-76-generic''"
    by (simp add: host_5_15_def c_str_Cons c_str_replicate_zero)
  have v: "c_str (version (kernel_uts (os host_5_15))) =
      ''#83-Ubuntu SMP Thu Jun 15 19:16:32 UTC 2023''"
    by (simp add: host_5_15_def c_str_Cons c_str_replicate_zero)
  have r: "replies host_5_15 = []"
    by (simp add: host_5_15_def replies_def)
  from scenario_Linux_version_field [OF ok v refl, of "NomadeNativePlugin GObject"] ok rel v r
  show ?thesis
    by simp
qed

text \<open>
  Claim C5 as the specification words it does not hold: on the host that runs the
  kernel \<^verbatim>\<open>5.15.0-76-generic\<close>, where \<^verbatim>\<open>uname\<close> succeeds, the reply to
  \<^verbatim>\<open>getPlatformVersion\<close> without arguments is not \<^verbatim>\<open>Linux 5.15.0-76-generic\<close>. That
  string is the release of the kernel, which the plugin does not read.
\<close>

theorem scenario_Linux_5_15_counterexample:
  "\<not> uname_fails (os host_5_15) \<and>
   c_str (release (kernel_uts (os host_5_15))) = ''5.15.0-76-generic'' \<and>
   replies (nomade_native_plugin_handle_method_call (NomadeNativePlugin GObject)
       \<lparr>mc_name = ''getPlatformVersion'', mc_args = FlNull\<rparr> host_5_15) \<noteq>
     [(\<lparr>mc_name = ''getPlatformVersion'', mc_args = FlNull\<rparr>,
       FlMethodSuccessResponse (FlString ''Linux 5.15.0-76-generic''))]"
  by (simp add: handle_method_call_eq replies_def host_5_15_def c_str_Cons
      c_str_replicate_zero)

text \<open>
  Claim C6. When \<^verbatim>\<open>uname\<close> fails, the query still returns a success response that holds
  a string, and the \<^verbatim>\<open>getPlatformVersion\<close> call is still answered exactly once, with
  that response.
\<close>

theorem uname_failure_still_answered:
  "uname_fails (os w) \<Longrightarrow> c_str (mc_name method_call) = ''getPlatformVersion'' \<Longrightarrow>
   \<exists>s. fst (get_platform_version w) = FlMethodSuccessResponse (FlString s) \<and>
       replies (nomade_native_plugin_handle_method_call self method_call w) =
         replies w @ [(method_call, FlMethodSuccessResponse (FlString s))]"
  by (simp add: handle_method_call_eq get_platform_version_eq replies_append)

theorem uname_failure_still_answered_witness:
  "uname_fails (os host_uname_fails) \<and>
   c_str (mc_name \<lparr>mc_name = ''getPlatformVersion'', mc_args = FlNull\<rparr>) = ''getPlatformVersion'' \<and>
   (\<exists>s. fst (get_platform_version host_uname_fails) = FlMethodSuccessResponse (FlString s) \<and>
        replies (nomade_native_plugin_handle_method_call (NomadeNativePlugin GObject)
            \<lparr>mc_name = ''getPlatformVersion'', mc_args = FlNull\<rparr> host_uname_fails) =
          [(\<lparr>mc_name = ''getPlatformVersion'', mc_args = FlNull\<rparr>,
            FlMethodSuccessResponse (FlString s))])"
proof -
  have f: "uname_fails (os host_uname_fails)"
    by (simp add: host_uname_fails_def)
  have n: "c_str (mc_name \<lparr>mc_name = ''getPlatformVersion'', mc_args = FlNull\<rparr>) =
      ''getPlatformVersion''"
    by (simp add: c_str_Cons)
  have r: "replies host_uname_fails = []"
    by (simp add: host_uname_fails_def replies_def)
  from uname_failure_still_answered [OF f n, of "NomadeNativePlugin GObject"] f n r
  show ?thesis
    by simp
qed

text \<open>
  Claim C7. The query is deterministic in the state of the operating system: in two
  worlds with the same operating system state, whatever their traces, it returns the
  same response; and since a run leaves the operating system state as it was, a second
  run right after the first returns what the first did.
\<close>

theorem get_platform_version_deterministic:
  "os w1 = os w2 \<Longrightarrow>
   fst (get_platform_version w1) = fst (get_platform_version w2) \<and>
   os (snd (get_platform_version w1)) = os w1"
  by (simp add: get_platform_version_eq)

theorem get_platform_version_deterministic_witness:
  "os (snd (get_platform_version host_5_15)) = os host_5_15 \<and>
   snd (get_platform_version host_5_15) \<noteq> host_5_15 \<and>
   fst (get_platform_version (snd (get_platform_version host_5_15))) =
     fst (get_platform_version host_5_15) \<and>
   fst (get_platform_version host_5_15) =
     FlMethodSuccessResponse
       (FlString ''Linux #83-Ubuntu SMP Thu Jun 15 19:16:32 UTC 2023'')"
proof -
  have o: "os (snd (get_platform_version host_5_15)) = os host_5_15"
    by (simp add: get_platform_version_eq)
  have d: "snd (get_platform_version host_5_15) \<noteq> host_5_15"
    by (simp add: get_platform_version_eq host_5_15_def)
  have v: "fst (get_platform_version host_5_15) =
     FlMethodSuccessResponse
       (FlString ''Linux #83-Ubuntu SMP Thu Jun 15 19:16:32 UTC 2023'')"
    by (simp add: get_platform_version_eq host_5_15_def c_str_Cons c_str_replicate_zero)
  from get_platform_version_deterministic [OF o] o d v show ?thesis
    by simp
qed

subsection \<open>Registration\<close>

text \<open>
  Claim C8. Registering the Linux plugin adds one channel object to the host's messenger:
  its name is \<^verbatim>\<open>nomade_native\<close>, its codec the standard method codec, its handler
  \<^verbatim>\<open>method_call_cb\<close> with the new plugin as user data; messages on that name now go to
  this object, every other channel is as before, and the number of installed handlers
  has grown by exactly one.
\<close>

theorem register_installs_one_handler:
  "messenger (nomade_native_plugin_register_with_registrar registrar) =
     (messenger registrar)
       \<lparr>channels := channels (messenger registrar) @
          [\<lparr>channel_name = ''nomade_native'', channel_codec = FlStandardMethodCodec,
            method_call_handler = Some (method_call_cb, NomadeNativePlugin GObject)\<rparr>],
        message_handlers := (message_handlers (messenger registrar))
          (''nomade_native'' \<mapsto> length (channels (messenger registrar)))\<rparr> \<and>
   length (installed_handlers
       (messenger (nomade_native_plugin_register_with_registrar registrar))) =
     Suc (length (installed_handlers (messenger registrar)))"
  by (simp add: nomade_native_plugin_register_with_registrar_def fl_method_channel_new_def
      fl_method_channel_set_method_call_handler_def fl_plugin_registrar_get_messenger_def
      fl_standard_method_codec_new_def g_object_new_def installed_handlers_def c_str_Cons
      Let_def)

text \<open>The Windows entry point does nothing but forward to the registration function.\<close>

lemma NomadeNativePluginCApiRegisterWithRegistrar_forwards:
  "NomadeNativePluginCApiRegisterWithRegistrar GetRegistrar RegisterWithRegistrar registrar =
     RegisterWithRegistrar (GetRegistrar registrar)"
  by (rule ext) (simp add: NomadeNativePluginCApiRegisterWithRegistrar_def)

subsection \<open>Failure of the system call, and the arguments of a call\<close>

text \<open>
  Claim C9. When \<^verbatim>\<open>uname\<close> fails, its return value is not looked at and the structure is
  still the zero-filled one, whose \<^verbatim>\<open>version\<close> field reads as the empty string: the
  query returns a success response (not an error response) with the payload \<^verbatim>\<open>Linux\<close>
  and a space, and that is what the dispatcher replies to \<^verbatim>\<open>getPlatformVersion\<close>.
\<close>

theorem uname_failure_success_Linux_empty:
  "uname_fails (os w) \<Longrightarrow>
   get_platform_version w =
     (FlMethodSuccessResponse (FlString (''Linux '' @ c_str (version utsname_zero))),
      w\<lparr>trace := trace w @ [Uname]\<rparr>) \<and>
   c_str (version utsname_zero) = [] \<and>
   nomade_native_plugin_handle_method_call self
       \<lparr>mc_name = ''getPlatformVersion'', mc_args = args\<rparr> w =
     w\<lparr>trace := trace w @
         [Uname, Respond \<lparr>mc_name = ''getPlatformVersion'', mc_args = args\<rparr>
                   (FlMethodSuccessResponse (FlString ''Linux ''))]\<rparr>"
  by (simp add: get_platform_version_eq handle_method_call_eq version_utsname_zero c_str_Cons)

theorem uname_failure_success_Linux_empty_witness:
  "uname_fails (os host_uname_fails) \<and>
   fst (get_platform_version host_uname_fails) = FlMethodSuccessResponse (FlString ''Linux '') \<and>
   trace (nomade_native_plugin_handle_method_call (NomadeNativePlugin GObject)
       \<lparr>mc_name = ''getPlatformVersion'', mc_args = FlNull\<rparr> host_uname_fails) =
     [Uname, Respond \<lparr>mc_name = ''getPlatformVersion'', mc_args = FlNull\<rparr>
               (FlMethodSuccessResponse (FlString ''Linux ''))]"
proof -
  have f: "uname_fails (os host_uname_fails)"
    by (simp add: host_uname_fails_def)
  have t: "trace host_uname_fails = []"
    by (simp add: host_uname_fails_def)
  from uname_failure_success_Linux_empty [OF f, of "NomadeNativePlugin GObject" FlNull] f t
  show ?thesis
    by simp
qed

text \<open>
  Claim C10. The arguments of a call are never read: two calls with the same method name,
  handled in worlds with the same operating system state, cause the same system calls
  and get the same response, whatever their argument payloads and whatever happened
  before.
\<close>

theorem response_independent_of_args:
  "c_str (mc_name call1) = c_str (mc_name call2) \<Longrightarrow> os w1 = os w2 \<Longrightarrow>
   \<exists>es response.
     trace (nomade_native_plugin_handle_method_call self call1 w1) =
       trace w1 @ es @ [Respond call1 response] \<and>
     trace (nomade_native_plugin_handle_method_call self call2 w2) =
       trace w2 @ es @ [Respond call2 response] \<and>
     concat (map reply_of es) = []"
proof (cases "c_str (mc_name call2) = ''getPlatformVersion''")
  case True
  assume "c_str (mc_name call1) = c_str (mc_name call2)" and "os w1 = os w2"
  with True have
    "trace (nomade_native_plugin_handle_method_call self call1 w1) =
       trace w1 @ [Uname] @ [Respond call1 (fst (get_platform_version w1))]"
    "trace (nomade_native_plugin_handle_method_call self call2 w2) =
       trace w2 @ [Uname] @ [Respond call2 (fst (get_platform_version w1))]"
    "concat (map reply_of [Uname]) = []"
    by (simp_all add: handle_method_call_eq get_platform_version_eq)
  then show ?thesis by blast
next
  case False
  assume "c_str (mc_name call1) = c_str (mc_name call2)" and "os w1 = os w2"
  with False have
    "trace (nomade_native_plugin_handle_method_call self call1 w1) =
       trace w1 @ [] @ [Respond call1 FlMethodNotImplementedResponse]"
    "trace (nomade_native_plugin_handle_method_call self call2 w2) =
       trace w2 @ [] @ [Respond call2 FlMethodNotImplementedResponse]"
    "concat (map reply_of []) = []"
    by (simp_all add: handle_method_call_eq)
  then show ?thesis by blast
qed

theorem response_independent_of_args_witness:
  "c_str (mc_name \<lparr>mc_name = ''getPlatformVersion'', mc_args = FlNull\<rparr>) =
     c_str (mc_name \<lparr>mc_name = ''getPlatformVersion'',
                     mc_args = FlList [FlInt 42, FlString ''x'']\<rparr>) \<and>
   os host_5_15 = os (host_5_15\<lparr>trace := [Uname]\<rparr>) \<and>
   (\<exists>es response.
     trace (nomade_native_plugin_handle_method_call (NomadeNativePlugin GObject)
         \<lparr>mc_name = ''getPlatformVersion'', mc_args = FlNull\<rparr> host_5_15) =
       trace host_5_15 @ es @
         [Respond \<lparr>mc_name = ''getPlatformVersion'', mc_args = FlNull\<rparr> response] \<and>
     trace (nomade_native_plugin_handle_method_call (NomadeNativePlugin GObject)
         \<lparr>mc_name = ''getPlatformVersion'', mc_args = FlList [FlInt 42, FlString ''x'']\<rparr>
         (host_5_15\<lparr>trace := [Uname]\<rparr>)) =
       trace (host_5_15\<lparr>trace := [Uname]\<rparr>) @ es @
         [Respond \<lparr>mc_name = ''getPlatformVersion'',
                   mc_args = FlList [FlInt 42, FlString ''x'']\<rparr> response] \<and>
     concat (map reply_of es) = [])"
proof -
  have n: "c_str (mc_name \<lparr>mc_name = ''getPlatformVersion'', mc_args = FlNull\<rparr>) =
     c_str (mc_name \<lparr>mc_name = ''getPlatformVersion'',
                     mc_args = FlList [FlInt 42, FlString ''x'']\<rparr>)"
    by simp
  have o: "os host_5_15 = os (host_5_15\<lparr>trace := [Uname]\<rparr>)"
    by simp
  from response_independent_of_args [OF n o, of "NomadeNativePlugin GObject"] n o
  show ?thesis
    by blast
qed

end
